theory Spec2Isabelle
  imports Main "HOL-Library.Word"
begin

unbundle bit_operations_syntax

section \<open>Machine types and constants\<close>

text \<open>
  The code is kernel code for a 32-bit target: \<open>ulong\<close>, \<open>size_t\<close> and \<open>u32\<close> are
  unsigned 32-bit integers whose arithmetic wraps around, and a pointer is a 32-bit
  address. Comparisons between them are unsigned.
\<close>

type_synonym u32 = "32 word"
type_synonym ulong = "32 word"
type_synonym size_t = "32 word"
type_synonym vaddr = "32 word"

text \<open>
  Modelled from the spec: \<open>PAGE_SIZE\<close>, \<open>PAGE_SHIFT\<close> and \<open>IS_PAGE_ALIGNED\<close> of the
  paging header, which is not among the sources. The page size is the 4096 bytes of the
  specification's scenarios, and an address is page-aligned when its low twelve bits
  are zero.
\<close>

definition PAGE_SHIFT :: nat where
  "PAGE_SHIFT = 12"

definition PAGE_SIZE :: ulong where
  "PAGE_SIZE = 4096"

definition IS_PAGE_ALIGNED :: "ulong \<Rightarrow> bool" where
  "IS_PAGE_ALIGNED x = (x AND (PAGE_SIZE - 1) = 0)"

datatype fat_type = fat12_type | fat16_type | fat32_type

text \<open>\<open>struct fat_fs_device_data\<close>: the fields the two functions read.\<close>

record fat_fs_device_data =
  hdr :: vaddr
  ftype :: fat_type
  cluster_size :: size_t
  mmap_support :: bool

section \<open>Mount-time preparation: \<open>fat_ramdisk_prepare_for_mmap\<close>\<close>

text \<open>
  The image is the memory the header pointer designates; its type is left open, and the
  FAT routines that read or rewrite it (\<open>fat_is_first_data_sector_aligned\<close>,
  \<open>fat_calculate_used_bytes\<close>, \<open>fat_align_first_data_sector\<close>) and the memory-map query
  \<open>system_mmap_check_for_extra_ramdisk_region\<close> are parameters, since their code is
  not among the sources.
\<close>

record 'img fat_layout_ops =
  system_mmap_check_for_extra_ramdisk_region :: "vaddr \<Rightarrow> bool"
  fat_is_first_data_sector_aligned :: "'img \<Rightarrow> ulong \<Rightarrow> bool"
  fat_calculate_used_bytes :: "'img \<Rightarrow> u32"
  fat_align_first_data_sector :: "'img \<Rightarrow> ulong \<Rightarrow> 'img"

text \<open>
  The state the function acts on: the mount's device data, the bytes of the image, the
  regions whose pageframes were retained (one entry per call of
  \<open>retain_pageframes_mapped_at\<close>: address and size), the calls of \<open>set_page_rw\<close> in
  order (address and the read-write flag) and the lines printed.
\<close>

record 'img ramdisk_state =
  dev :: fat_fs_device_data
  image :: 'img
  retained :: "(vaddr \<times> size_t) list"
  page_rw_calls :: "(vaddr \<times> bool) list"
  printed :: "string list"

text \<open>
  How a call ends: it returns a value, the always-on \<open>VERIFY\<close> check halts the kernel,
  or one of its \<open>for\<close> loops never ends (the state given with that outcome is the one
  in which the loop was entered).
\<close>

datatype prepare_outcome =
    Returned int
  | Verify_failed
  | Never_returns

text \<open>
  The two \<open>for\<close> loops walk the pointer \<open>va\<close> from \<open>va_begin\<close> in steps of one page
  while \<open>va < va_end\<close>, in 32-bit arithmetic. A pointer that wraps around below \<open>va_end\<close>
  keeps the loop running for ever, so the addresses visited are an option: \<open>None\<close> when
  the loop does not end.
\<close>

partial_function (option) page_addresses :: "vaddr \<Rightarrow> vaddr \<Rightarrow> vaddr list option" where
  "page_addresses va va_end =
     (if va < va_end then
        Option.bind (page_addresses (va + PAGE_SIZE) va_end) (\<lambda>vas. Some (va # vas))
      else Some [])"

definition set_pages_rw :: "vaddr \<Rightarrow> vaddr \<Rightarrow> bool \<Rightarrow> (vaddr \<times> bool) list option" where
  "set_pages_rw va_begin va_end rw =
     map_option (map (\<lambda>va. (va, rw))) (page_addresses va_begin va_end)"

text \<open>
  The precondition on the cluster size in the specification's words: at least one page,
  and a whole number of pages.
\<close>

definition cluster_size_supported :: "size_t \<Rightarrow> bool" where
  "cluster_size_supported cs =
     (unat PAGE_SIZE \<le> unat cs \<and> unat cs mod unat PAGE_SIZE = 0)"

text \<open>The size the function works with after its first statement.\<close>

definition effective_rd_size :: "'img fat_layout_ops \<Rightarrow> vaddr \<Rightarrow> size_t \<Rightarrow> size_t" where
  "effective_rd_size ops h rd_size =
     (if system_mmap_check_for_extra_ramdisk_region ops h then rd_size + PAGE_SIZE
      else rd_size)"

definition fat_ramdisk_prepare_for_mmap ::
  "'img fat_layout_ops \<Rightarrow> 'img ramdisk_state \<Rightarrow> size_t \<Rightarrow> prepare_outcome \<times> 'img ramdisk_state"
where
  "fat_ramdisk_prepare_for_mmap ops s rd_size0 =
     (let d = dev s;
          h = hdr d;
          rd_size = effective_rd_size ops h rd_size0
      in
      if cluster_size d < PAGE_SIZE \<or> \<not> IS_PAGE_ALIGNED (cluster_size d) then
        (Returned (- 1), s)
      else
        let s1 = s\<lparr>retained := retained s @ [(h, rd_size)]\<rparr> in
        if fat_is_first_data_sector_aligned ops (image s1) PAGE_SIZE then
          (Returned 0, s1)
        else
          let used = fat_calculate_used_bytes ops (image s1);
              va_begin = h;
              va_end = va_begin + rd_size
          in
          if \<not> (rd_size \<ge> used) then (Verify_failed, s1)
          else if rd_size - used < PAGE_SIZE then
            (Returned (- 1),
             s1\<lparr>printed := printed s1 @
                 [''WARNING: [fat ramdisk] cannot align first data sector'']\<rparr>)
          else
            case set_pages_rw va_begin va_end True of
              None \<Rightarrow> (Never_returns, s1)
            | Some made_rw \<Rightarrow>
                let s2 = s1\<lparr>page_rw_calls := page_rw_calls s1 @ made_rw\<rparr>;
                    s3 = s2\<lparr>image := fat_align_first_data_sector ops (image s2) PAGE_SIZE\<rparr>
                in
                case set_pages_rw va_begin va_end False of
                  None \<Rightarrow> (Never_returns, s3)
                | Some made_ro \<Rightarrow>
                    let s4 = s3\<lparr>page_rw_calls := page_rw_calls s3 @ made_ro\<rparr> in
                    (Returned 0,
                     s4\<lparr>printed := printed s4 @
                         [''fat ramdisk: align of ramdisk was necessary'']\<rparr>))"

section \<open>Mapping a file: \<open>fat_mmap\<close>\<close>

datatype errno = ENOMEM | EACCES | ENODEV

text \<open>The value a function returns: \<open>0\<close>, or a negated error number.\<close>

datatype retval = Ret_0 | Ret_minus errno

text \<open>\<open>struct fat_entry\<close>, \<open>struct fatfs_handle\<close> and \<open>struct user_mapping\<close>.\<close>

record fat_entry =
  directory :: bool
  DIR_FstClus :: u32

record fatfs_handle =
  fh_e :: fat_entry
  fh_device_data :: fat_fs_device_data

record user_mapping =
  um_h :: fatfs_handle
  um_off :: size_t
  um_len :: size_t
  um_vaddr :: ulong

datatype paging_flag = PAGING_FL_US | PAGING_FL_SHARED

text \<open>
  What \<open>fat_mmap\<close> calls and does not define: the FAT routines, the paging routines
  (over an address space of type \<open>'pd\<close>), the macro \<open>KERNEL_VA_TO_PA\<close>, the flag bit
  \<open>VFS_MM_DONT_MMAP\<close>, and whether \<open>ASSERT\<close> is compiled in (it expands to nothing in a
  release build). \<open>map_pages\<close> returns the number of pages it mapped and the address
  space it leaves.
\<close>

record 'pd kernel_env =
  asserts_enabled :: bool
  VFS_MM_DONT_MMAP :: "32 word"
  KERNEL_VA_TO_PA :: "vaddr \<Rightarrow> ulong"
  fat_get_first_cluster :: "fat_entry \<Rightarrow> u32"
  fat_get_pointer_to_cluster_data :: "vaddr \<Rightarrow> u32 \<Rightarrow> vaddr"
  fat_read_fat_entry :: "vaddr \<Rightarrow> fat_type \<Rightarrow> u32 \<Rightarrow> u32 \<Rightarrow> u32"
  fat_is_bad_cluster :: "fat_type \<Rightarrow> u32 \<Rightarrow> bool"
  fat_is_end_of_clusterchain :: "fat_type \<Rightarrow> u32 \<Rightarrow> bool"
  map_pages :: "'pd \<Rightarrow> vaddr \<Rightarrow> ulong \<Rightarrow> size_t \<Rightarrow> paging_flag list \<Rightarrow> size_t \<times> 'pd"
  unmap_pages_permissive :: "'pd \<Rightarrow> vaddr \<Rightarrow> size_t \<Rightarrow> bool \<Rightarrow> 'pd"

text \<open>
  The calls made on the Page Mapper, in order, and the clusters skipped. A \<open>Map_pages\<close>
  entry records the cluster of the iteration and the running offset at the head of the
  iteration, then the arguments of \<open>map_pages\<close> (virtual address, physical address,
  page count) and the count it returned.
\<close>

datatype event =
    Map_pages (ev_clu: u32) (ev_off: ulong) (ev_vaddr: vaddr) (ev_paddr: ulong)
              (ev_pg_count: size_t) (ev_mapped_cnt: size_t)
  | Skip_cluster u32 ulong
  | Unmap_pages_permissive vaddr size_t

text \<open>The local variables of the loop, the address space and the calls so far.\<close>

record 'pd mmap_state =
  st_clu :: u32
  st_off :: ulong
  st_vaddr :: ulong
  st_tot_mapped_cnt :: size_t
  st_pdir :: 'pd
  st_trace :: "event list"

datatype mmap_outcome =
    Mmap_returned retval
  | Mmap_assert_failed
  | Mmap_divide_error
  | Mmap_out_of_fuel

datatype 'pd step =
    Exit mmap_outcome 'pd "event list"
  | Continue "'pd mmap_state"

text \<open>The branch of the loop body that maps the current cluster (lines 128 to 166).\<close>

definition fat_mmap_map_cluster ::
  "'pd kernel_env \<Rightarrow> fat_fs_device_data \<Rightarrow> user_mapping \<Rightarrow> 'pd mmap_state \<Rightarrow> 'pd step"
where
  "fat_mmap_map_cluster env d um s =
     (let off_begin = um_off um;
          off_end = off_begin + um_len um;
          clu_end_off = st_off s + cluster_size d;
          data = fat_get_pointer_to_cluster_data env (hdr d) (st_clu s);
          (off1, data1) =
             (if st_off s < off_begin then
                (let off' = off_begin in (off', data + (off_begin - off')))
              else (st_off s, data));
          pg_count = drop_bit PAGE_SHIFT (min clu_end_off off_end - off1);
          (mapped_cnt, pd1) =
             map_pages env (st_pdir s) (st_vaddr s) (KERNEL_VA_TO_PA env data1) pg_count
               [PAGING_FL_US, PAGING_FL_SHARED];
          tr1 = st_trace s @
                [Map_pages (st_clu s) (st_off s) (st_vaddr s) (KERNEL_VA_TO_PA env data1)
                   pg_count mapped_cnt]
      in
      if mapped_cnt \<noteq> pg_count then
        Exit (Mmap_returned (Ret_minus ENOMEM))
          (unmap_pages_permissive env pd1 (um_vaddr um) (st_tot_mapped_cnt s) False)
          (tr1 @ [Unmap_pages_permissive (um_vaddr um) (st_tot_mapped_cnt s)])
      else
        let vaddr' = st_vaddr s + push_bit PAGE_SHIFT pg_count;
            off2 = off1 + push_bit PAGE_SHIFT pg_count;
            tot' = st_tot_mapped_cnt s + mapped_cnt
        in
        if asserts_enabled env \<and> cluster_size d = 0 then Exit Mmap_divide_error pd1 tr1
        else if asserts_enabled env \<and> off2 mod cluster_size d \<noteq> 0 then
          Exit Mmap_assert_failed pd1 tr1
        else
          Continue (s\<lparr>st_off := off2, st_vaddr := vaddr', st_tot_mapped_cnt := tot',
                      st_pdir := pd1, st_trace := tr1\<rparr>))"

text \<open>One pass through the body of the \<open>do\<close> loop (lines 119 to 178).\<close>

definition fat_mmap_body ::
  "'pd kernel_env \<Rightarrow> fat_fs_device_data \<Rightarrow> user_mapping \<Rightarrow> 'pd mmap_state \<Rightarrow> 'pd step"
where
  "fat_mmap_body env d um s =
     (let off_begin = um_off um;
          off_end = off_begin + um_len um;
          clu_end_off = st_off s + cluster_size d
      in
      if st_off s \<ge> off_end then Exit (Mmap_returned Ret_0) (st_pdir s) (st_trace s)
      else
        case (if clu_end_off > off_begin then fat_mmap_map_cluster env d um s
              else Continue (s\<lparr>st_off := st_off s + cluster_size d,
                               st_trace := st_trace s @ [Skip_cluster (st_clu s) (st_off s)]\<rparr>))
        of
          Exit r pd tr \<Rightarrow> Exit r pd tr
        | Continue s1 \<Rightarrow>
            let c = fat_read_fat_entry env (hdr d) (ftype d) 0 (st_clu s1) in
            if asserts_enabled env \<and> fat_is_bad_cluster env (ftype d) c then
              Exit Mmap_assert_failed (st_pdir s1) (st_trace s1)
            else Continue (s1\<lparr>st_clu := c\<rparr>))"

text \<open>
  The \<open>do ... while\<close> loop. The cluster chain comes from the image and may be cyclic,
  so the loop is given fuel: one unit per pass through the body.
\<close>

fun fat_mmap_loop ::
  "'pd kernel_env \<Rightarrow> fat_fs_device_data \<Rightarrow> user_mapping \<Rightarrow> nat \<Rightarrow> 'pd mmap_state
     \<Rightarrow> mmap_outcome \<times> 'pd \<times> event list"
where
  "fat_mmap_loop env d um 0 s = (Mmap_out_of_fuel, st_pdir s, st_trace s)"
| "fat_mmap_loop env d um (Suc n) s =
     (case fat_mmap_body env d um s of
        Exit r pd tr \<Rightarrow> (r, pd, tr)
      | Continue s' \<Rightarrow>
          if fat_is_end_of_clusterchain env (ftype d) (st_clu s') then
            (Mmap_returned Ret_0, st_pdir s', st_trace s')
          else fat_mmap_loop env d um n s')"

definition fat_mmap ::
  "'pd kernel_env \<Rightarrow> nat \<Rightarrow> user_mapping \<Rightarrow> 'pd \<Rightarrow> 32 word
     \<Rightarrow> mmap_outcome \<times> 'pd \<times> event list"
where
  "fat_mmap env fuel um pd flags =
     (let fh = um_h um;
          d = fh_device_data fh
      in
      if \<not> mmap_support d then (Mmap_returned (Ret_minus ENODEV), pd, [])
      else if directory (fh_e fh) then (Mmap_returned (Ret_minus EACCES), pd, [])
      else if flags AND VFS_MM_DONT_MMAP env \<noteq> 0 then (Mmap_returned Ret_0, pd, [])
      else
        fat_mmap_loop env d um fuel
          \<lparr>st_clu = fat_get_first_cluster env (fh_e fh), st_off = 0,
           st_vaddr = um_vaddr um, st_tot_mapped_cnt = 0, st_pdir = pd, st_trace = []\<rparr>)"

section \<open>The Page Mapper of the specification\<close>

text \<open>
  Modelled from the spec: the Page Mapper (\<open>map_pages\<close>, \<open>unmap_pages_permissive\<close>),
  whose code is not among the sources. "map-pages(address space, virtual address,
  physical address, page count, flags) gives the pages actually mapped (may fall short
  only under resource exhaustion); unmap-pages(address space, virtual address, page
  count, permissive) releases mappings, tolerating partial or absent mappings when
  permissive." An address space is the mapping from virtual page addresses to physical
  addresses together with the number of pages that can still be mapped before the
  resources run out.
\<close>

record addr_space =
  as_map :: "vaddr \<rightharpoonup> ulong"
  as_free :: nat

definition map_range :: "(vaddr \<rightharpoonup> ulong) \<Rightarrow> vaddr \<Rightarrow> ulong \<Rightarrow> nat \<Rightarrow> (vaddr \<rightharpoonup> ulong)" where
  "map_range m va pa k =
     fold (\<lambda>i m'. m'(va + of_nat i * PAGE_SIZE \<mapsto> pa + of_nat i * PAGE_SIZE)) [0..<k] m"

definition unmap_range :: "(vaddr \<rightharpoonup> ulong) \<Rightarrow> vaddr \<Rightarrow> nat \<Rightarrow> (vaddr \<rightharpoonup> ulong)" where
  "unmap_range m va k = fold (\<lambda>i m'. m'(va + of_nat i * PAGE_SIZE := None)) [0..<k] m"

definition spec_map_pages ::
  "addr_space \<Rightarrow> vaddr \<Rightarrow> ulong \<Rightarrow> size_t \<Rightarrow> paging_flag list \<Rightarrow> size_t \<times> addr_space"
where
  "spec_map_pages a va pa page_count fl =
     (let k = min (unat page_count) (as_free a)
      in (of_nat k, a\<lparr>as_map := map_range (as_map a) va pa k, as_free := as_free a - k\<rparr>))"

definition spec_unmap_pages_permissive ::
  "addr_space \<Rightarrow> vaddr \<Rightarrow> size_t \<Rightarrow> bool \<Rightarrow> addr_space"
where
  "spec_unmap_pages_permissive a va page_count do_free =
     a\<lparr>as_map := unmap_range (as_map a) va (unat page_count)\<rparr>"

section \<open>Concrete mounts and files\<close>

text \<open>
  A ramdisk whose file data starts at \<open>data_va\<close> and a file of \<open>n\<close> contiguous clusters
  of \<open>cs\<close> bytes, the first being cluster 2: the FAT entry of a cluster of the file is
  the next cluster number, or the end-of-chain mark after the last one.
\<close>

definition contiguous_file_env ::
  "bool \<Rightarrow> vaddr \<Rightarrow> size_t \<Rightarrow> u32 \<Rightarrow> addr_space kernel_env"
where
  "contiguous_file_env asserts data_va cs n =
     \<lparr>asserts_enabled = asserts,
      VFS_MM_DONT_MMAP = 1,
      KERNEL_VA_TO_PA = (\<lambda>va. va - 0xC0000000),
      fat_get_first_cluster = DIR_FstClus,
      fat_get_pointer_to_cluster_data = (\<lambda>h c. data_va + (c - 2) * cs),
      fat_read_fat_entry = (\<lambda>h t i c. if c + 1 < 2 + n then c + 1 else 0x0FFFFFFF),
      fat_is_bad_cluster = (\<lambda>t c. c = 0x0FFFFFF7),
      fat_is_end_of_clusterchain = (\<lambda>t c. 0x0FFFFFF8 \<le> c),
      map_pages = spec_map_pages,
      unmap_pages_permissive = spec_unmap_pages_permissive\<rparr>"

definition ramdisk_dev :: "size_t \<Rightarrow> bool \<Rightarrow> fat_fs_device_data" where
  "ramdisk_dev cs supported =
     \<lparr>hdr = 0xC1000000, ftype = fat32_type, cluster_size = cs, mmap_support = supported\<rparr>"

definition file_mapping :: "fat_fs_device_data \<Rightarrow> bool \<Rightarrow> size_t \<Rightarrow> size_t \<Rightarrow> user_mapping" where
  "file_mapping d is_dir offset length_bytes =
     \<lparr>um_h = \<lparr>fh_e = \<lparr>directory = is_dir, DIR_FstClus = 2\<rparr>, fh_device_data = d\<rparr>,
      um_off = offset, um_len = length_bytes, um_vaddr = 0x40000000\<rparr>"

definition empty_space :: "nat \<Rightarrow> addr_space" where
  "empty_space free = \<lparr>as_map = Map.empty, as_free = free\<rparr>"

text \<open>
  An image reduced to what the layout routines look at: the byte offset of the first
  data sector and the number of bytes in use.
\<close>

record layout_image =
  first_data_sector_off :: nat
  used_bytes :: nat

definition layout_ops :: "bool \<Rightarrow> layout_image fat_layout_ops" where
  "layout_ops extra =
     \<lparr>system_mmap_check_for_extra_ramdisk_region = (\<lambda>h. extra),
      fat_is_first_data_sector_aligned = (\<lambda>img a. first_data_sector_off img mod unat a = 0),
      fat_calculate_used_bytes = (\<lambda>img. of_nat (used_bytes img)),
      fat_align_first_data_sector =
        (\<lambda>img a. let gap = (unat a - first_data_sector_off img mod unat a) mod unat a
                 in img\<lparr>first_data_sector_off := first_data_sector_off img + gap,
                        used_bytes := used_bytes img + gap\<rparr>)\<rparr>"

definition ramdisk_at_mount :: "size_t \<Rightarrow> nat \<Rightarrow> nat \<Rightarrow> layout_image ramdisk_state" where
  "ramdisk_at_mount cs first_off used =
     \<lparr>dev = ramdisk_dev cs False,
      image = \<lparr>first_data_sector_off = first_off, used_bytes = used\<rparr>,
      retained = [], page_rw_calls = [], printed = []\<rparr>"

section \<open>Concrete calls\<close>

text \<open>
  Calls of \<open>fat_mmap\<close> on a file of three contiguous clusters whose data starts at
  virtual address \<open>0xC1100000\<close> (physical \<open>0x01100000\<close>), mapped at \<open>0x40000000\<close>, with
  fuel for ten passes through the loop.
\<close>

text \<open>Clusters of 4096 bytes, region [8192, 12288).\<close>

definition skipping_run :: "mmap_outcome \<times> addr_space \<times> event list" where
  "skipping_run =
     fat_mmap (contiguous_file_env True 0xC1100000 4096 3) 10
       (file_mapping (ramdisk_dev 4096 True) False 8192 4096) (empty_space 100) 0"

text \<open>Clusters of 8192 bytes, region [4096, 8192), which starts inside the first cluster.\<close>

definition clipped_run :: "mmap_outcome \<times> addr_space \<times> event list" where
  "clipped_run =
     fat_mmap (contiguous_file_env True 0xC1100000 8192 3) 10
       (file_mapping (ramdisk_dev 8192 True) False 4096 4096) (empty_space 100) 0"

text \<open>
  Clusters of 8192 bytes, region [0, 24576), and resources for three more pages only.
\<close>

definition shortfall_run :: "mmap_outcome \<times> addr_space \<times> event list" where
  "shortfall_run =
     fat_mmap (contiguous_file_env True 0xC1100000 8192 3) 10
       (file_mapping (ramdisk_dev 8192 True) False 0 24576) (empty_space 3) 0"

text \<open>Clusters of 8192 bytes, region [0, 4096), which ends inside the first cluster.\<close>

definition mid_cluster_end_run :: "bool \<Rightarrow> mmap_outcome \<times> addr_space \<times> event list" where
  "mid_cluster_end_run asserts =
     fat_mmap (contiguous_file_env asserts 0xC1100000 8192 3) 10
       (file_mapping (ramdisk_dev 8192 True) False 0 4096) (empty_space 100) 0"

text \<open>
  The scenario of the specification: cluster size and page size 4096, the file covering
  bytes [0, 12288), and the request [2000, 10000) (offset 2000, length 8000).
\<close>

definition unaligned_scenario_run :: "bool \<Rightarrow> mmap_outcome \<times> addr_space \<times> event list" where
  "unaligned_scenario_run asserts =
     fat_mmap (contiguous_file_env asserts 0xC1100000 4096 3) 10
       (file_mapping (ramdisk_dev 4096 True) False 2000 8000) (empty_space 100) 0"

text \<open>The same file, and the request [0, 12288): the pages that [2000, 10000) touches.\<close>

definition aligned_scenario_run :: "bool \<Rightarrow> mmap_outcome \<times> addr_space \<times> event list" where
  "aligned_scenario_run asserts =
     fat_mmap (contiguous_file_env asserts 0xC1100000 4096 3) 10
       (file_mapping (ramdisk_dev 4096 True) False 0 12288) (empty_space 100) 0"

text \<open>Clusters of 4096 bytes, region [0, 100): the length is not a whole number of pages.\<close>

definition short_region_run :: "bool \<Rightarrow> mmap_outcome \<times> addr_space \<times> event list" where
  "short_region_run asserts =
     fat_mmap (contiguous_file_env asserts 0xC1100000 4096 3) 10
       (file_mapping (ramdisk_dev 4096 True) False 0 100) (empty_space 100) 0"

section \<open>What the loop records\<close>

text \<open>
  The facts about a recorded call that the loop establishes when it makes it: a call of
  \<open>map_pages\<close> passes the physical address of the start of the cluster's data and is
  made only after both tests of the loop head let the cluster through; a cluster is
  skipped only when the second test fails.
\<close>

fun event_sound :: "'pd kernel_env \<Rightarrow> fat_fs_device_data \<Rightarrow> user_mapping \<Rightarrow> event \<Rightarrow> bool" where
  "event_sound env d um (Map_pages c off va pa cnt mc) =
     (pa = KERNEL_VA_TO_PA env (fat_get_pointer_to_cluster_data env (hdr d) c)
      \<and> off < um_off um + um_len um
      \<and> um_off um < off + cluster_size d)"
| "event_sound env d um (Skip_cluster c off) =
     (off < um_off um + um_len um \<and> off + cluster_size d \<le> um_off um)"
| "event_sound env d um (Unmap_pages_permissive va cnt) = True"

text \<open>
  Every pass of the loop that does not leave at its head records one entry, for the
  cluster it handles, and then fetches the next cluster of the chain; so the entry at
  position \<open>k\<close> of a trace belongs to pass \<open>k\<close>. (Only the call of
  \<open>unmap_pages_permissive\<close> is recorded in addition, as the last entry of a trace.)

  The running offsets recorded in a trace are those of consecutive clusters of the file:
  the cluster handled in pass \<open>k\<close> (mapped or skipped) is recorded with offset \<open>k * cs\<close>.
\<close>

fun offsets_from :: "nat \<Rightarrow> nat \<Rightarrow> event list \<Rightarrow> bool" where
  "offsets_from cs k [] = True"
| "offsets_from cs k (Map_pages c off va pa cnt mc # evs) =
     (unat off = k * cs \<and> offsets_from cs (Suc k) evs)"
| "offsets_from cs k (Skip_cluster c off # evs) =
     (unat off = k * cs \<and> offsets_from cs (Suc k) evs)"
| "offsets_from cs k (Unmap_pages_permissive va cnt # evs) = offsets_from cs (Suc k) evs"

text \<open>
  The clusters recorded in a trace are those of the chain in order: the entry of pass
  \<open>k\<close> names the cluster reached from \<open>c\<close> by \<open>k\<close> steps of \<open>nxt\<close>.
\<close>

fun in_chain_order :: "(u32 \<Rightarrow> u32) \<Rightarrow> u32 \<Rightarrow> event list \<Rightarrow> bool" where
  "in_chain_order nxt c [] = True"
| "in_chain_order nxt c (Map_pages c' off va pa cnt mc # evs) =
     (c' = c \<and> in_chain_order nxt (nxt c) evs)"
| "in_chain_order nxt c (Skip_cluster c' off # evs) =
     (c' = c \<and> in_chain_order nxt (nxt c) evs)"
| "in_chain_order nxt c (Unmap_pages_permissive va cnt # evs) =
     in_chain_order nxt (nxt c) evs"

text \<open>
  The loop invariant for the chain: the trace is in chain order from the first cluster
  \<open>c0\<close>, and the current cluster is the one that many steps along the chain.
\<close>

definition chain_inv :: "(u32 \<Rightarrow> u32) \<Rightarrow> u32 \<Rightarrow> 'pd mmap_state \<Rightarrow> bool" where
  "chain_inv nxt c0 s =
     (in_chain_order nxt c0 (st_trace s) \<and> st_clu s = (nxt ^^ length (st_trace s)) c0)"

text \<open>
  A page-aligned request: offset and length are whole pages, the cluster size is
  supported, and the end of the region plus one cluster does not overflow the 32 bits.
\<close>

definition page_aligned_request :: "fat_fs_device_data \<Rightarrow> user_mapping \<Rightarrow> bool" where
  "page_aligned_request d um =
     (cluster_size_supported (cluster_size d)
      \<and> IS_PAGE_ALIGNED (um_off um) \<and> IS_PAGE_ALIGNED (um_len um)
      \<and> unat (um_off um) + unat (um_len um) + unat (cluster_size d) < 2 ^ 32)"

text \<open>
  The loop invariant for such a request: at the head of pass \<open>k\<close> the running offset is
  \<open>k * cluster_size\<close>, or it has reached the end of the region (and the loop stops).
\<close>

definition offsets_inv :: "fat_fs_device_data \<Rightarrow> user_mapping \<Rightarrow> 'pd mmap_state \<Rightarrow> bool" where
  "offsets_inv d um s =
     (offsets_from (unat (cluster_size d)) 0 (st_trace s)
      \<and> (unat (st_off s) = length (st_trace s) * unat (cluster_size d)
          \<or> um_off um + um_len um \<le> st_off s))"

text \<open>The pages that the calls of \<open>map_pages\<close> in a trace reported as mapped.\<close>

fun mapped_total :: "event list \<Rightarrow> size_t" where
  "mapped_total [] = 0"
| "mapped_total (Map_pages c off va pa cnt mc # evs) = mc + mapped_total evs"
| "mapped_total (Skip_cluster c off # evs) = mapped_total evs"
| "mapped_total (Unmap_pages_permissive va cnt # evs) = mapped_total evs"

text \<open>
  The loop invariant behind the rollback: \<open>tot_mapped_cnt\<close> is the number of pages
  mapped so far, and \<open>vaddr\<close> is the start of the region advanced by that many pages.
\<close>

definition rollback_inv :: "user_mapping \<Rightarrow> 'pd mmap_state \<Rightarrow> bool" where
  "rollback_inv um s =
     (st_tot_mapped_cnt s = mapped_total (st_trace s)
      \<and> st_vaddr s = um_vaddr um + push_bit PAGE_SHIFT (mapped_total (st_trace s)))"

text \<open>
  How a trace ends when \<open>fat_mmap\<close> gives up: a call of \<open>map_pages\<close> at the current
  virtual address that reported fewer pages than it was asked for, then one call of
  \<open>unmap_pages_permissive\<close> from the start of the region for the pages of the earlier
  calls.
\<close>

definition short_call_exit :: "user_mapping \<Rightarrow> event list \<Rightarrow> bool" where
  "short_call_exit um tr =
     (\<exists>tr0 c off pa pg mc.
        tr = tr0 @ [Map_pages c off (um_vaddr um + push_bit PAGE_SHIFT (mapped_total tr0))
                      pa pg mc,
                    Unmap_pages_permissive (um_vaddr um) (mapped_total tr0)]
        \<and> mc \<noteq> pg)"

text \<open>A call of \<open>map_pages\<close> that mapped as many pages as it was asked for.\<close>

fun call_complete :: "event \<Rightarrow> bool" where
  "call_complete (Map_pages c off va pa cnt mc) = (mc = cnt)"
| "call_complete (Skip_cluster c off) = True"
| "call_complete (Unmap_pages_permissive va cnt) = True"

section \<open>Properties of the mount-time preparation\<close>


lemma IS_PAGE_ALIGNED_iff: "IS_PAGE_ALIGNED x \<longleftrightarrow> unat x mod 4096 = 0"
proof -
  have "(PAGE_SIZE - 1 :: 32 word) = mask 12"
    by (simp add: PAGE_SIZE_def mask_eq_exp_minus_1)
  then have "IS_PAGE_ALIGNED x \<longleftrightarrow> 2 ^ 12 dvd unat x"
    using and_mask_dvd_nat [of 12 x] by (simp add: IS_PAGE_ALIGNED_def)
  then show ?thesis by (simp add: dvd_eq_mod_eq_0)
qed

lemma cluster_size_check:
  "(cs < PAGE_SIZE \<or> \<not> IS_PAGE_ALIGNED cs) \<longleftrightarrow> \<not> cluster_size_supported cs"
  by (auto simp: cluster_size_supported_def IS_PAGE_ALIGNED_iff PAGE_SIZE_def word_less_nat_alt)

text \<open>
  Claim C3. On a mount whose cluster size is smaller than a page or not a whole number
  of pages, \<open>fat_ramdisk_prepare_for_mmap\<close> returns \<open>-1\<close> and leaves the state as it
  found it (nothing is retained, no page is made writable, the image is not touched).
  The function never writes the \<open>mmap_support\<close> flag, so a mount whose flag is off has
  it off afterwards, and every \<open>fat_mmap\<close> on that mount then returns \<open>-ENODEV\<close> with
  the address space unchanged and no call of the Page Mapper.
\<close>

theorem prepare_rejects_unsupported_cluster_size:
  assumes "\<not> cluster_size_supported (cluster_size (dev s))"
    and "\<not> mmap_support (dev s)"
    and "fh_device_data (um_h um) = dev (snd (fat_ramdisk_prepare_for_mmap ops s rd_size))"
  shows "fat_ramdisk_prepare_for_mmap ops s rd_size = (Returned (- 1), s)
       \<and> \<not> mmap_support (dev (snd (fat_ramdisk_prepare_for_mmap ops s rd_size)))
       \<and> fat_mmap env fuel um pd flags = (Mmap_returned (Ret_minus ENODEV), pd, [])"
proof -
  have chk: "cluster_size (dev s) < PAGE_SIZE \<or> \<not> IS_PAGE_ALIGNED (cluster_size (dev s))"
    using assms(1) by (simp add: cluster_size_check)
  then have ret: "fat_ramdisk_prepare_for_mmap ops s rd_size = (Returned (- 1), s)"
    by (simp add: fat_ramdisk_prepare_for_mmap_def Let_def)
  with assms(2,3) have "\<not> mmap_support (fh_device_data (um_h um))" by simp
  then have "fat_mmap env fuel um pd flags = (Mmap_returned (Ret_minus ENODEV), pd, [])"
    by (simp add: fat_mmap_def Let_def)
  with ret assms(2) show ?thesis by simp
qed


text \<open>An instance: a mount with clusters of 2048 bytes.\<close>

theorem prepare_rejects_unsupported_cluster_size_witness:
  "\<not> cluster_size_supported 2048
   \<and> fat_ramdisk_prepare_for_mmap (layout_ops True) (ramdisk_at_mount 2048 8192 40960) 65536
       = (Returned (- 1), ramdisk_at_mount 2048 8192 40960)
   \<and> fat_mmap (contiguous_file_env True 0xC1100000 2048 3) 10
        (file_mapping (ramdisk_dev 2048 False) False 0 4096) (empty_space 100) 0
       = (Mmap_returned (Ret_minus ENODEV), empty_space 100, [])"
proof -
  have a: "\<not> cluster_size_supported (cluster_size (dev (ramdisk_at_mount 2048 8192 40960)))"
    by (simp add: cluster_size_supported_def PAGE_SIZE_def ramdisk_at_mount_def ramdisk_dev_def)
  have b: "\<not> mmap_support (dev (ramdisk_at_mount 2048 8192 40960))"
    by (simp add: ramdisk_at_mount_def ramdisk_dev_def)
  have c: "fh_device_data (um_h (file_mapping (ramdisk_dev 2048 False) False 0 4096))
        = dev (snd (fat_ramdisk_prepare_for_mmap (layout_ops True)
                      (ramdisk_at_mount 2048 8192 40960) 65536))"
    by (simp add: fat_ramdisk_prepare_for_mmap_def Let_def file_mapping_def ramdisk_at_mount_def
        ramdisk_dev_def PAGE_SIZE_def)
  show ?thesis
    using prepare_rejects_unsupported_cluster_size [OF a b c,
        of "contiguous_file_env True 0xC1100000 2048 3" 10 "empty_space 100" 0] a
    by (simp add: ramdisk_at_mount_def ramdisk_dev_def)
qed


text \<open>
  Claim C6. When the first data sector is not page-aligned and the bytes the filesystem
  uses equal the size of the ramdisk region the function works with (the size passed,
  plus the extra page when the memory map has one after the ramdisk), so that no
  headroom is left, \<open>fat_ramdisk_prepare_for_mmap\<close> returns \<open>-1\<close>; the image is not
  repaired and a capability flag that is off stays off.
\<close>

theorem prepare_fails_without_headroom:
  assumes "\<not> fat_is_first_data_sector_aligned ops (image s) PAGE_SIZE"
    and "fat_calculate_used_bytes ops (image s) = effective_rd_size ops (hdr (dev s)) rd_size"
    and "\<not> mmap_support (dev s)"
  shows "fst (fat_ramdisk_prepare_for_mmap ops s rd_size) = Returned (- 1)
       \<and> \<not> mmap_support (dev (snd (fat_ramdisk_prepare_for_mmap ops s rd_size)))
       \<and> image (snd (fat_ramdisk_prepare_for_mmap ops s rd_size)) = image s
       \<and> page_rw_calls (snd (fat_ramdisk_prepare_for_mmap ops s rd_size)) = page_rw_calls s"
proof (cases "cluster_size (dev s) < PAGE_SIZE \<or> \<not> IS_PAGE_ALIGNED (cluster_size (dev s))")
  case True
  then show ?thesis
    using assms(3) by (simp add: fat_ramdisk_prepare_for_mmap_def Let_def)
next
  case False
  have "(0::32 word) < PAGE_SIZE" by (simp add: PAGE_SIZE_def)
  with False assms show ?thesis
    by (simp add: fat_ramdisk_prepare_for_mmap_def Let_def)
qed

text \<open>An instance: a misaligned image that fills its 65536-byte region.\<close>

theorem prepare_fails_without_headroom_witness:
  "fst (fat_ramdisk_prepare_for_mmap (layout_ops False) (ramdisk_at_mount 4096 512 65536) 65536)
     = Returned (- 1)
   \<and> \<not> mmap_support (dev (snd (fat_ramdisk_prepare_for_mmap (layout_ops False)
                                  (ramdisk_at_mount 4096 512 65536) 65536)))"
proof -
  let ?s = "ramdisk_at_mount 4096 512 65536"
  have a: "\<not> fat_is_first_data_sector_aligned (layout_ops False) (image ?s) PAGE_SIZE"
    by (simp add: layout_ops_def ramdisk_at_mount_def PAGE_SIZE_def)
  have b: "fat_calculate_used_bytes (layout_ops False) (image ?s)
             = effective_rd_size (layout_ops False) (hdr (dev ?s)) 65536"
    by (simp add: layout_ops_def ramdisk_at_mount_def effective_rd_size_def)
  have c: "\<not> mmap_support (dev ?s)"
    by (simp add: ramdisk_at_mount_def ramdisk_dev_def)
  show ?thesis
    using prepare_fails_without_headroom [OF a b c] by simp
qed

text \<open>
  Claim C8. With a supported cluster size and a first data sector that is already
  page-aligned, \<open>fat_ramdisk_prepare_for_mmap\<close> returns \<open>0\<close> and its only effect is one
  call of \<open>retain_pageframes_mapped_at\<close> on the ramdisk region: the image is the same
  before and after, and no page is made writable.
\<close>

theorem prepare_aligned_image_only_pins:
  assumes "cluster_size_supported (cluster_size (dev s))"
    and "fat_is_first_data_sector_aligned ops (image s) PAGE_SIZE"
  shows "fat_ramdisk_prepare_for_mmap ops s rd_size =
           (Returned 0,
            s\<lparr>retained := retained s @
                 [(hdr (dev s), effective_rd_size ops (hdr (dev s)) rd_size)]\<rparr>)
       \<and> image (snd (fat_ramdisk_prepare_for_mmap ops s rd_size)) = image s
       \<and> page_rw_calls (snd (fat_ramdisk_prepare_for_mmap ops s rd_size)) = page_rw_calls s"
proof -
  have "\<not> (cluster_size (dev s) < PAGE_SIZE \<or> \<not> IS_PAGE_ALIGNED (cluster_size (dev s)))"
    using assms(1) by (simp add: cluster_size_check)
  with assms(2) show ?thesis
    by (simp add: fat_ramdisk_prepare_for_mmap_def Let_def)
qed

text \<open>An instance: clusters of 4096 bytes, first data sector at byte 8192.\<close>

theorem prepare_aligned_image_only_pins_witness:
  "fat_ramdisk_prepare_for_mmap (layout_ops True) (ramdisk_at_mount 4096 8192 40960) 65536 =
     (Returned 0, (ramdisk_at_mount 4096 8192 40960)\<lparr>retained := [(0xC1000000, 69632)]\<rparr>)
   \<and> image (snd (fat_ramdisk_prepare_for_mmap (layout_ops True)
                   (ramdisk_at_mount 4096 8192 40960) 65536))
       = \<lparr>first_data_sector_off = 8192, used_bytes = 40960\<rparr>"
proof -
  let ?s = "ramdisk_at_mount 4096 8192 40960"
  have a: "cluster_size_supported (cluster_size (dev ?s))"
    by (simp add: cluster_size_supported_def PAGE_SIZE_def ramdisk_at_mount_def ramdisk_dev_def)
  have b: "fat_is_first_data_sector_aligned (layout_ops True) (image ?s) PAGE_SIZE"
    by (simp add: layout_ops_def ramdisk_at_mount_def PAGE_SIZE_def)
  show ?thesis
    using prepare_aligned_image_only_pins [OF a b, of 65536]
    by (simp add: ramdisk_at_mount_def ramdisk_dev_def effective_rd_size_def layout_ops_def
        PAGE_SIZE_def)
qed

text \<open>
  Claim C9. With a supported cluster size the pageframes of the ramdisk region are
  retained on every path, because the call of \<open>retain_pageframes_mapped_at\<close> comes
  before the alignment and headroom checks. In particular the path that fails for lack
  of headroom (image misaligned, less than a page left) returns \<open>-1\<close> in a state that
  differs from the one it started in.
\<close>

theorem prepare_pins_before_alignment_checks:
  assumes "cluster_size_supported (cluster_size (dev s))"
  shows "retained (snd (fat_ramdisk_prepare_for_mmap ops s rd_size)) =
           retained s @ [(hdr (dev s), effective_rd_size ops (hdr (dev s)) rd_size)]
       \<and> (\<not> fat_is_first_data_sector_aligned ops (image s) PAGE_SIZE
            \<and> fat_calculate_used_bytes ops (image s)
                 \<le> effective_rd_size ops (hdr (dev s)) rd_size
            \<and> effective_rd_size ops (hdr (dev s)) rd_size
                 - fat_calculate_used_bytes ops (image s) < PAGE_SIZE
          \<longrightarrow> fst (fat_ramdisk_prepare_for_mmap ops s rd_size) = Returned (- 1)
              \<and> snd (fat_ramdisk_prepare_for_mmap ops s rd_size) \<noteq> s)"
proof -
  have ok: "\<not> (cluster_size (dev s) < PAGE_SIZE \<or> \<not> IS_PAGE_ALIGNED (cluster_size (dev s)))"
    using assms by (simp add: cluster_size_check)
  have ret: "retained (snd (fat_ramdisk_prepare_for_mmap ops s rd_size)) =
           retained s @ [(hdr (dev s), effective_rd_size ops (hdr (dev s)) rd_size)]"
    using ok by (simp add: fat_ramdisk_prepare_for_mmap_def Let_def split: option.splits)
  have "snd (fat_ramdisk_prepare_for_mmap ops s rd_size) \<noteq> s"
  proof
    assume "snd (fat_ramdisk_prepare_for_mmap ops s rd_size) = s"
    with ret have "retained s = retained s @ [(hdr (dev s), effective_rd_size ops (hdr (dev s)) rd_size)]"
      by simp
    then show False by simp
  qed
  moreover have "\<not> fat_is_first_data_sector_aligned ops (image s) PAGE_SIZE
            \<and> fat_calculate_used_bytes ops (image s)
                 \<le> effective_rd_size ops (hdr (dev s)) rd_size
            \<and> effective_rd_size ops (hdr (dev s)) rd_size
                 - fat_calculate_used_bytes ops (image s) < PAGE_SIZE
          \<longrightarrow> fst (fat_ramdisk_prepare_for_mmap ops s rd_size) = Returned (- 1)"
    using ok by (simp add: fat_ramdisk_prepare_for_mmap_def Let_def)
  ultimately show ?thesis using ret by blast
qed

text \<open>An instance: a misaligned image with 536 bytes of headroom.\<close>

theorem prepare_pins_before_alignment_checks_witness:
  "fat_ramdisk_prepare_for_mmap (layout_ops False) (ramdisk_at_mount 4096 512 65000) 65536 =
     (Returned (- 1),
      (ramdisk_at_mount 4096 512 65000)
        \<lparr>retained := [(0xC1000000, 65536)],
         printed := [''WARNING: [fat ramdisk] cannot align first data sector'']\<rparr>)
   \<and> snd (fat_ramdisk_prepare_for_mmap (layout_ops False) (ramdisk_at_mount 4096 512 65000) 65536)
       \<noteq> ramdisk_at_mount 4096 512 65000"
proof -
  let ?s = "ramdisk_at_mount 4096 512 65000"
  have a: "cluster_size_supported (cluster_size (dev ?s))"
    by (simp add: cluster_size_supported_def PAGE_SIZE_def ramdisk_at_mount_def ramdisk_dev_def)
  have b: "fat_ramdisk_prepare_for_mmap (layout_ops False) ?s 65536 =
     (Returned (- 1),
      ?s\<lparr>retained := [(0xC1000000, 65536)],
         printed := [''WARNING: [fat ramdisk] cannot align first data sector'']\<rparr>)"
    by (simp add: fat_ramdisk_prepare_for_mmap_def Let_def ramdisk_at_mount_def ramdisk_dev_def
        effective_rd_size_def layout_ops_def PAGE_SIZE_def IS_PAGE_ALIGNED_def)
  have c: "\<not> fat_is_first_data_sector_aligned (layout_ops False) (image ?s) PAGE_SIZE
            \<and> fat_calculate_used_bytes (layout_ops False) (image ?s)
                 \<le> effective_rd_size (layout_ops False) (hdr (dev ?s)) 65536
            \<and> effective_rd_size (layout_ops False) (hdr (dev ?s)) 65536
                 - fat_calculate_used_bytes (layout_ops False) (image ?s) < PAGE_SIZE"
    by (simp add: ramdisk_at_mount_def ramdisk_dev_def
        effective_rd_size_def layout_ops_def PAGE_SIZE_def)
  from prepare_pins_before_alignment_checks [OF a, of "layout_ops False" 65536] c
  have "snd (fat_ramdisk_prepare_for_mmap (layout_ops False) ?s 65536) \<noteq> ?s"
    by blast
  with b show ?thesis by simp
qed


text \<open>
  The page loops in 32-bit arithmetic: a region of two pages is walked page by page,
  and a region whose end wraps around is not walked at all.
\<close>

lemma page_addresses_two_pages:
  "page_addresses 0xC1000000 (0xC1000000 + 8192) = Some [0xC1000000, 0xC1001000]"
  by (simp add: page_addresses.simps PAGE_SIZE_def)

lemma page_addresses_wrapped_end:
  "page_addresses 0xFFFFE000 (0xFFFFE000 + 16384) = Some []"
  by (simp add: page_addresses.simps)

section \<open>Properties of \<open>fat_mmap\<close>\<close>

subsection \<open>Every recorded call is sound\<close>

lemma unat_plus_le: "unat (a + b) \<le> unat a + unat (b :: 32 word)"
  by (simp add: unat_word_ariths)

lemma map_cluster_sound:
  assumes "\<forall>ev\<in>set (st_trace s). event_sound env d um ev"
    and "st_off s < um_off um + um_len um"
    and "um_off um < st_off s + cluster_size d"
  shows "case fat_mmap_map_cluster env d um s of
           Exit r pd tr \<Rightarrow> \<forall>ev\<in>set tr. event_sound env d um ev
         | Continue s' \<Rightarrow> \<forall>ev\<in>set (st_trace s'). event_sound env d um ev"
  using assms
  by (auto simp: fat_mmap_map_cluster_def Let_def split: prod.splits)

lemma body_sound:
  assumes "\<forall>ev\<in>set (st_trace s). event_sound env d um ev"
  shows "case fat_mmap_body env d um s of
           Exit r pd tr \<Rightarrow> \<forall>ev\<in>set tr. event_sound env d um ev
         | Continue s' \<Rightarrow> \<forall>ev\<in>set (st_trace s'). event_sound env d um ev"
proof (cases "um_off um + um_len um \<le> st_off s")
  case True
  with assms show ?thesis by (simp add: fat_mmap_body_def Let_def)
next
  case False
  note notpast = this
  show ?thesis
  proof (cases "um_off um < st_off s + cluster_size d")
    case True
    with notpast map_cluster_sound [OF assms, of ] show ?thesis
      by (auto simp: fat_mmap_body_def Let_def split: step.splits)
  next
    case False
    with notpast assms show ?thesis
      by (auto simp: fat_mmap_body_def Let_def)
  qed
qed

lemma loop_sound:
  assumes "\<forall>ev\<in>set (st_trace s). event_sound env d um ev"
    and "fat_mmap_loop env d um fuel s = (r, pd, tr)"
  shows "\<forall>ev\<in>set tr. event_sound env d um ev"
  using assms
proof (induction fuel arbitrary: s)
  case 0
  then show ?case by simp
next
  case (Suc n)
  from body_sound [OF Suc.prems(1)] Suc.prems(2) Suc.IH show ?case
    by (auto split: step.splits if_splits)
qed

lemma fat_mmap_sound:
  assumes "fat_mmap env fuel um pd flags = (r, pd', tr)"
  shows "\<forall>ev\<in>set tr. event_sound env (fh_device_data (um_h um)) um ev"
proof (cases "mmap_support (fh_device_data (um_h um)) \<and> \<not> directory (fh_e (um_h um))
              \<and> flags AND VFS_MM_DONT_MMAP env = 0")
  case True
  with assms have "fat_mmap_loop env (fh_device_data (um_h um)) um fuel
          \<lparr>st_clu = fat_get_first_cluster env (fh_e (um_h um)), st_off = 0,
           st_vaddr = um_vaddr um, st_tot_mapped_cnt = 0, st_pdir = pd, st_trace = []\<rparr>
        = (r, pd', tr)"
    by (simp add: fat_mmap_def Let_def)
  then show ?thesis
    by (rule loop_sound [rotated]) simp
next
  case False
  with assms show ?thesis by (auto simp: fat_mmap_def Let_def split: if_splits)
qed


subsection \<open>Entry guards\<close>

text \<open>
  Claim C2. \<open>fat_mmap\<close> tests its guards in this order, the first that applies
  deciding the result: a mount without mmap support gives \<open>-ENODEV\<close>; otherwise a
  directory gives \<open>-EACCES\<close>; otherwise a set \<open>VFS_MM_DONT_MMAP\<close> bit gives \<open>0\<close>. In all
  three cases the address space is returned as it was and no call of the Page Mapper is
  recorded.
\<close>

theorem fat_mmap_entry_guards:
  "(\<not> mmap_support (fh_device_data (um_h um)) \<longrightarrow>
      fat_mmap env fuel um pd flags = (Mmap_returned (Ret_minus ENODEV), pd, []))
   \<and> (mmap_support (fh_device_data (um_h um)) \<and> directory (fh_e (um_h um)) \<longrightarrow>
      fat_mmap env fuel um pd flags = (Mmap_returned (Ret_minus EACCES), pd, []))
   \<and> (mmap_support (fh_device_data (um_h um)) \<and> \<not> directory (fh_e (um_h um))
        \<and> flags AND VFS_MM_DONT_MMAP env \<noteq> 0 \<longrightarrow>
      fat_mmap env fuel um pd flags = (Mmap_returned Ret_0, pd, []))"
  by (simp add: fat_mmap_def Let_def)

text \<open>
  Instances: a directory on a mount without support, a directory opened with the
  reserve-only bit on a mount with support, and a file opened with the reserve-only bit.
\<close>

theorem fat_mmap_entry_guards_witness:
  "fat_mmap (contiguous_file_env True 0xC1100000 4096 3) 10
     (file_mapping (ramdisk_dev 4096 False) True 0 4096) (empty_space 100) 1
     = (Mmap_returned (Ret_minus ENODEV), empty_space 100, [])
   \<and> fat_mmap (contiguous_file_env True 0xC1100000 4096 3) 10
     (file_mapping (ramdisk_dev 4096 True) True 0 4096) (empty_space 100) 1
     = (Mmap_returned (Ret_minus EACCES), empty_space 100, [])
   \<and> fat_mmap (contiguous_file_env True 0xC1100000 4096 3) 10
     (file_mapping (ramdisk_dev 4096 True) False 0 4096) (empty_space 100) 1
     = (Mmap_returned Ret_0, empty_space 100, [])"
  using
    fat_mmap_entry_guards [of "file_mapping (ramdisk_dev 4096 False) True 0 4096"
      "contiguous_file_env True 0xC1100000 4096 3" 10 "empty_space 100" 1]
    fat_mmap_entry_guards [of "file_mapping (ramdisk_dev 4096 True) True 0 4096"
      "contiguous_file_env True 0xC1100000 4096 3" 10 "empty_space 100" 1]
    fat_mmap_entry_guards [of "file_mapping (ramdisk_dev 4096 True) False 0 4096"
      "contiguous_file_env True 0xC1100000 4096 3" 10 "empty_space 100" 1]
  by (simp add: file_mapping_def ramdisk_dev_def contiguous_file_env_def)

subsection \<open>Which clusters reach the Page Mapper\<close>

text \<open>
  The loop takes the bytes of the current cluster to run from the running offset \<open>off\<close>
  to \<open>off + cluster_size\<close> (\<open>clu_end_off\<close>). Whenever \<open>map_pages\<close> is called, that
  range neither ends at or before the start of the requested region nor starts at or
  after its end, in 32-bit arithmetic and as natural numbers. This holds for every
  request and every run, also one cut short by the fuel; it is a statement about the
  running offset, which is the cluster's offset in the file for page-aligned requests
  only.
\<close>

lemma map_pages_only_past_loop_guards:
  assumes "fat_mmap env fuel um pd flags = (r, pd', tr)"
    and "Map_pages c off va pa cnt mc \<in> set tr"
  shows "\<not> (off + cluster_size (fh_device_data (um_h um)) \<le> um_off um)
       \<and> \<not> (um_off um + um_len um \<le> off)
       \<and> \<not> (unat off + unat (cluster_size (fh_device_data (um_h um))) \<le> unat (um_off um))
       \<and> \<not> (unat (um_off um) + unat (um_len um) \<le> unat off)"
proof -
  from fat_mmap_sound [OF assms(1)] assms(2)
  have "event_sound env (fh_device_data (um_h um)) um (Map_pages c off va pa cnt mc)"
    by blast
  then have w: "off < um_off um + um_len um"
    "um_off um < off + cluster_size (fh_device_data (um_h um))"
    by simp_all
  from w(1) have "unat off < unat (um_off um) + unat (um_len um)"
    using unat_plus_le [of "um_off um" "um_len um"] by (simp add: word_less_nat_alt)
  moreover from w(2)
  have "unat (um_off um) < unat off + unat (cluster_size (fh_device_data (um_h um)))"
    using unat_plus_le [of off "cluster_size (fh_device_data (um_h um))"]
    by (simp add: word_less_nat_alt)
  ultimately show ?thesis using w by (simp add: not_le)
qed

subsection \<open>The running offset of a page-aligned request\<close>

lemma offsets_from_append:
  "offsets_from cs k (xs @ ys) =
     (offsets_from cs k xs \<and> offsets_from cs (k + length xs) ys)"
  by (induction cs k xs rule: offsets_from.induct) auto

lemma offsets_from_nth:
  assumes "offsets_from cs k tr"
    and "i < length tr"
    and "tr ! i = Map_pages c off va pa cnt mc"
  shows "unat off = (k + i) * cs"
  using assms
proof (induction cs k tr arbitrary: i rule: offsets_from.induct)
  case (1 cs k)
  then show ?case by simp
next
  case (2 cs k c' off' va' pa' cnt' mc' evs)
  then show ?case by (cases i) auto
next
  case (3 cs k c' off' evs)
  then show ?case by (cases i) auto
next
  case (4 cs k va' cnt' evs)
  then show ?case by (cases i) auto
qed

lemma page_aligned_dvd: "IS_PAGE_ALIGNED x \<longleftrightarrow> 4096 dvd x"
proof -
  have "(PAGE_SIZE - 1 :: 32 word) = mask 12"
    by (simp add: PAGE_SIZE_def mask_eq_exp_minus_1)
  then have "IS_PAGE_ALIGNED x \<longleftrightarrow> take_bit 12 x = 0"
    by (simp add: IS_PAGE_ALIGNED_def take_bit_eq_mask)
  with take_bit_eq_0_iff [of 12 x] show ?thesis
    by simp
qed

lemma page_aligned_round:
  assumes "IS_PAGE_ALIGNED a" and "IS_PAGE_ALIGNED m"
  shows "a + push_bit PAGE_SHIFT (drop_bit PAGE_SHIFT (m - a)) = m"
proof -
  have "4096 dvd m - a"
    using assms by (simp add: page_aligned_dvd)
  with take_bit_eq_0_iff [of 12 "m - a"] have "take_bit 12 (m - a) = 0"
    by simp
  with bits_ident [of 12 "m - a"] have "push_bit 12 (drop_bit 12 (m - a)) = m - a"
    by simp
  then show ?thesis by (simp add: PAGE_SHIFT_def)
qed

lemma page_aligned_multiple:
  assumes "unat x mod 4096 = 0" and "unat (y :: 32 word) = k * unat (x :: 32 word)"
  shows "IS_PAGE_ALIGNED y"
proof -
  from assms(1) have "4096 dvd unat x" by (simp add: dvd_eq_mod_eq_0)
  then have "4096 dvd k * unat x" by (rule dvd_mult)
  with assms(2) show ?thesis by (simp add: IS_PAGE_ALIGNED_iff dvd_eq_mod_eq_0)
qed

lemma map_cluster_alt:
  "fat_mmap_map_cluster env d um s =
     (let off1 = (if st_off s < um_off um then um_off um else st_off s);
          pa = KERNEL_VA_TO_PA env (fat_get_pointer_to_cluster_data env (hdr d) (st_clu s));
          pg_count = drop_bit PAGE_SHIFT
                       (min (st_off s + cluster_size d) (um_off um + um_len um) - off1);
          res = map_pages env (st_pdir s) (st_vaddr s) pa pg_count
                  [PAGING_FL_US, PAGING_FL_SHARED];
          tr1 = st_trace s @
                  [Map_pages (st_clu s) (st_off s) (st_vaddr s) pa pg_count (fst res)]
      in
      if fst res \<noteq> pg_count then
        Exit (Mmap_returned (Ret_minus ENOMEM))
          (unmap_pages_permissive env (snd res) (um_vaddr um) (st_tot_mapped_cnt s) False)
          (tr1 @ [Unmap_pages_permissive (um_vaddr um) (st_tot_mapped_cnt s)])
      else if asserts_enabled env \<and> cluster_size d = 0 then
        Exit Mmap_divide_error (snd res) tr1
      else if asserts_enabled env
                \<and> (off1 + push_bit PAGE_SHIFT pg_count) mod cluster_size d \<noteq> 0 then
        Exit Mmap_assert_failed (snd res) tr1
      else
        Continue (s\<lparr>st_off := off1 + push_bit PAGE_SHIFT pg_count,
                    st_vaddr := st_vaddr s + push_bit PAGE_SHIFT pg_count,
                    st_tot_mapped_cnt := st_tot_mapped_cnt s + fst res,
                    st_pdir := snd res, st_trace := tr1\<rparr>))"
  by (simp add: fat_mmap_map_cluster_def Let_def split: prod.splits)

lemma map_cluster_offsets:
  assumes R: "page_aligned_request d um"
    and J: "offsets_inv d um s"
    and g1: "st_off s < um_off um + um_len um"
    and g2: "um_off um < st_off s + cluster_size d"
  shows "case fat_mmap_map_cluster env d um s of
           Exit r pd tr \<Rightarrow> offsets_from (unat (cluster_size d)) 0 tr
         | Continue s' \<Rightarrow> offsets_inv d um s'"
proof -
  define cs where "cs = cluster_size d"
  define ob where "ob = um_off um"
  define oe where "oe = um_off um + um_len um"
  define k where "k = length (st_trace s)"
  define off1 where "off1 = (if st_off s < ob then ob else st_off s)"
  define m where "m = min (st_off s + cs) oe"
  from R have cs_al: "unat cs mod 4096 = 0" and cs_pos: "4096 \<le> unat cs"
    and ob_al: "IS_PAGE_ALIGNED ob" and len_al: "IS_PAGE_ALIGNED (um_len um)"
    and bound: "unat ob + unat (um_len um) + unat cs < 2 ^ 32"
    by (simp_all add: page_aligned_request_def cluster_size_supported_def PAGE_SIZE_def
        cs_def ob_def)
  from bound have oe_nat: "unat oe = unat ob + unat (um_len um)"
    unfolding oe_def ob_def by (simp add: unat_add_lem [THEN iffD1])
  from J g1 have tr_ok: "offsets_from (unat cs) 0 (st_trace s)"
    and offk: "unat (st_off s) = k * unat cs"
    by (auto simp: offsets_inv_def cs_def k_def)
  from g1 have "unat (st_off s) < unat oe"
    by (simp add: word_less_nat_alt oe_def)
  with oe_nat bound have "unat (st_off s) + unat cs < 2 ^ 32" by simp
  then have ce_nat: "unat (st_off s + cs) = unat (st_off s) + unat cs"
    by (simp add: unat_add_lem [THEN iffD1])
  have off_al: "IS_PAGE_ALIGNED (st_off s)"
    using cs_al offk by (rule page_aligned_multiple)
  have "unat (st_off s + cs) = Suc k * unat cs"
    using ce_nat offk by simp
  with cs_al have ce_al: "IS_PAGE_ALIGNED (st_off s + cs)"
    by (rule page_aligned_multiple)
  have oe_al: "IS_PAGE_ALIGNED oe"
    using ob_al len_al by (simp add: page_aligned_dvd oe_def ob_def)
  have m_al: "IS_PAGE_ALIGNED m"
    using ce_al oe_al by (simp add: m_def min_def)
  have off1_al: "IS_PAGE_ALIGNED off1"
    using ob_al off_al by (simp add: off1_def)
  have round: "off1 + push_bit PAGE_SHIFT (drop_bit PAGE_SHIFT (m - off1)) = m"
    using off1_al m_al by (rule page_aligned_round)
  have m_ok: "unat m = Suc k * unat cs \<or> oe \<le> m"
    using ce_nat offk by (auto simp: m_def min_def)
  define pa where
    "pa = KERNEL_VA_TO_PA env (fat_get_pointer_to_cluster_data env (hdr d) (st_clu s))"
  define pg where "pg = drop_bit PAGE_SHIFT (m - off1)"
  define res where
    "res = map_pages env (st_pdir s) (st_vaddr s) pa pg [PAGING_FL_US, PAGING_FL_SHARED]"
  define tr1 where
    "tr1 = st_trace s @ [Map_pages (st_clu s) (st_off s) (st_vaddr s) pa pg (fst res)]"
  have eq: "fat_mmap_map_cluster env d um s =
      (if fst res \<noteq> pg then
        Exit (Mmap_returned (Ret_minus ENOMEM))
          (unmap_pages_permissive env (snd res) (um_vaddr um) (st_tot_mapped_cnt s) False)
          (tr1 @ [Unmap_pages_permissive (um_vaddr um) (st_tot_mapped_cnt s)])
      else if asserts_enabled env \<and> cs = 0 then
        Exit Mmap_divide_error (snd res) tr1
      else if asserts_enabled env \<and> (off1 + push_bit PAGE_SHIFT pg) mod cs \<noteq> 0 then
        Exit Mmap_assert_failed (snd res) tr1
      else
        Continue (s\<lparr>st_off := off1 + push_bit PAGE_SHIFT pg,
                    st_vaddr := st_vaddr s + push_bit PAGE_SHIFT pg,
                    st_tot_mapped_cnt := st_tot_mapped_cnt s + fst res,
                    st_pdir := snd res, st_trace := tr1\<rparr>))"
    unfolding map_cluster_alt Let_def tr1_def res_def pg_def pa_def m_def off1_def
      cs_def ob_def oe_def
    by (rule refl)
  have tr1_ok: "offsets_from (unat cs) 0 tr1"
    using tr_ok offk by (simp add: tr1_def offsets_from_append k_def)
  have seen: "length tr1 = Suc k"
    by (simp add: tr1_def k_def)
  have "offsets_inv d um (s\<lparr>st_off := off1 + push_bit PAGE_SHIFT pg,
                    st_vaddr := v, st_tot_mapped_cnt := t, st_pdir := p, st_trace := tr1\<rparr>)"
    for v t p
    using round [folded pg_def] m_ok tr1_ok seen
    by (simp add: offsets_inv_def flip: cs_def oe_def)
  moreover from cs_pos have "cs \<noteq> 0" by auto
  ultimately show ?thesis
    unfolding eq using tr1_ok by (simp add: offsets_from_append flip: cs_def)
qed

lemma body_offsets:
  assumes R: "page_aligned_request d um"
    and J: "offsets_inv d um s"
  shows "case fat_mmap_body env d um s of
           Exit r pd tr \<Rightarrow> offsets_from (unat (cluster_size d)) 0 tr
         | Continue s' \<Rightarrow> offsets_inv d um s'"
proof (cases "um_off um + um_len um \<le> st_off s")
  case True
  with J show ?thesis by (simp add: fat_mmap_body_def Let_def offsets_inv_def)
next
  case False
  then have g1: "st_off s < um_off um + um_len um" by simp
  show ?thesis
  proof (cases "um_off um < st_off s + cluster_size d")
    case True
    with False map_cluster_offsets [OF R J g1 True, of env] show ?thesis
      by (auto simp: fat_mmap_body_def Let_def offsets_inv_def split: step.splits)
  next
    case False
    from R have bound: "unat (um_off um) + unat (um_len um) + unat (cluster_size d) < 2 ^ 32"
      by (simp add: page_aligned_request_def)
    then have "unat (um_off um + um_len um) = unat (um_off um) + unat (um_len um)"
      by (simp add: unat_add_lem [THEN iffD1])
    with g1 bound have "unat (st_off s) + unat (cluster_size d) < 2 ^ 32"
      by (simp add: word_less_nat_alt)
    then have ce: "unat (st_off s + cluster_size d) = unat (st_off s) + unat (cluster_size d)"
      by (simp add: unat_add_lem [THEN iffD1])
    from J g1 have "offsets_from (unat (cluster_size d)) 0 (st_trace s)"
      and "unat (st_off s) = length (st_trace s) * unat (cluster_size d)"
      by (auto simp: offsets_inv_def)
    with False g1 ce show ?thesis
      by (simp add: fat_mmap_body_def Let_def offsets_inv_def offsets_from_append)
  qed
qed

lemma loop_offsets:
  assumes "page_aligned_request d um"
    and "offsets_inv d um s"
    and "fat_mmap_loop env d um fuel s = (r, pd, tr)"
  shows "offsets_from (unat (cluster_size d)) 0 tr"
  using assms(2,3)
proof (induction fuel arbitrary: s)
  case 0
  then show ?case by (simp add: offsets_inv_def)
next
  case (Suc n)
  from body_offsets [OF assms(1) Suc.prems(1), of env] Suc.prems(2) Suc.IH show ?case
    by (auto simp: offsets_inv_def split: step.splits if_splits)
qed

text \<open>
  The range the loop tracks is the cluster's own range in the file: for a page-aligned
  request, the cluster handled in pass \<open>k\<close> of the loop is recorded with the running
  offset \<open>k * cluster_size\<close>, whatever the Page Mapper and the cluster chain do.
\<close>

lemma running_offset_is_cluster_offset:
  assumes "page_aligned_request (fh_device_data (um_h um)) um"
    and "fat_mmap env fuel um pd flags = (r, pd', tr)"
  shows "offsets_from (unat (cluster_size (fh_device_data (um_h um)))) 0 tr"
proof (cases "mmap_support (fh_device_data (um_h um)) \<and> \<not> directory (fh_e (um_h um))
              \<and> flags AND VFS_MM_DONT_MMAP env = 0")
  case True
  with assms(2) have "fat_mmap_loop env (fh_device_data (um_h um)) um fuel
          \<lparr>st_clu = fat_get_first_cluster env (fh_e (um_h um)), st_off = 0,
           st_vaddr = um_vaddr um, st_tot_mapped_cnt = 0, st_pdir = pd, st_trace = []\<rparr>
        = (r, pd', tr)"
    by (simp add: fat_mmap_def Let_def)
  then show ?thesis
    by (rule loop_offsets [OF assms(1), rotated]) (simp add: offsets_inv_def)
next
  case False
  with assms(2) show ?thesis by (auto simp: fat_mmap_def Let_def split: if_splits)
qed

subsection \<open>The clusters of a trace are those of the chain\<close>

lemma in_chain_order_append:
  "in_chain_order nxt c (xs @ ys) =
     (in_chain_order nxt c xs \<and> in_chain_order nxt ((nxt ^^ length xs) c) ys)"
  by (induction nxt c xs rule: in_chain_order.induct) (simp_all add: funpow_swap1)

lemma in_chain_order_nth:
  assumes "in_chain_order nxt c0 tr"
    and "i < length tr"
    and "tr ! i = Map_pages c off va pa cnt mc"
  shows "c = (nxt ^^ i) c0"
  using assms
proof (induction nxt c0 tr arbitrary: i rule: in_chain_order.induct)
  case (1 nxt c0)
  then show ?case by simp
next
  case (2 nxt c0 c' off' va' pa' cnt' mc' evs)
  then show ?case by (cases i) (auto simp: funpow_swap1)
next
  case (3 nxt c0 c' off' evs)
  then show ?case by (cases i) (auto simp: funpow_swap1)
next
  case (4 nxt c0 va' cnt' evs)
  then show ?case by (cases i) (auto simp: funpow_swap1)
qed

lemma map_cluster_chain:
  assumes "chain_inv nxt c0 s"
  shows "case fat_mmap_map_cluster env d um s of
           Exit r pd tr \<Rightarrow> in_chain_order nxt c0 tr
         | Continue s' \<Rightarrow>
             in_chain_order nxt c0 (st_trace s') \<and> st_clu s' = st_clu s
             \<and> length (st_trace s') = Suc (length (st_trace s))"
  using assms unfolding map_cluster_alt
  by (simp add: Let_def chain_inv_def in_chain_order_append)

lemma body_chain:
  assumes "chain_inv (fat_read_fat_entry env (hdr d) (ftype d) 0) c0 s"
  shows "case fat_mmap_body env d um s of
           Exit r pd tr \<Rightarrow> in_chain_order (fat_read_fat_entry env (hdr d) (ftype d) 0) c0 tr
         | Continue s' \<Rightarrow> chain_inv (fat_read_fat_entry env (hdr d) (ftype d) 0) c0 s'"
  using assms map_cluster_chain [OF assms, of env d um]
  by (auto simp: fat_mmap_body_def Let_def chain_inv_def in_chain_order_append
      split: step.splits)

lemma loop_chain:
  assumes "chain_inv (fat_read_fat_entry env (hdr d) (ftype d) 0) c0 s"
    and "fat_mmap_loop env d um fuel s = (r, pd, tr)"
  shows "in_chain_order (fat_read_fat_entry env (hdr d) (ftype d) 0) c0 tr"
  using assms
proof (induction fuel arbitrary: s)
  case 0
  then show ?case by (simp add: chain_inv_def)
next
  case (Suc n)
  from body_chain [OF Suc.prems(1), of um] Suc.prems(2) Suc.IH show ?case
    by (auto simp: chain_inv_def split: step.splits if_splits)
qed

text \<open>
  The entry of pass \<open>k\<close> names the \<open>k\<close>-th cluster of the file's chain, counted from the
  first cluster along \<open>fat_read_fat_entry\<close>: the cluster that holds the file bytes from
  \<open>k * cluster_size\<close> to \<open>(k + 1) * cluster_size\<close>.
\<close>

lemma trace_in_chain_order:
  assumes "fat_mmap env fuel um pd flags = (r, pd', tr)"
  shows "in_chain_order
           (fat_read_fat_entry env (hdr (fh_device_data (um_h um)))
              (ftype (fh_device_data (um_h um))) 0)
           (fat_get_first_cluster env (fh_e (um_h um))) tr"
proof (cases "mmap_support (fh_device_data (um_h um)) \<and> \<not> directory (fh_e (um_h um))
              \<and> flags AND VFS_MM_DONT_MMAP env = 0")
  case True
  with assms have "fat_mmap_loop env (fh_device_data (um_h um)) um fuel
          \<lparr>st_clu = fat_get_first_cluster env (fh_e (um_h um)), st_off = 0,
           st_vaddr = um_vaddr um, st_tot_mapped_cnt = 0, st_pdir = pd, st_trace = []\<rparr>
        = (r, pd', tr)"
    by (simp add: fat_mmap_def Let_def)
  then show ?thesis
    by (rule loop_chain [rotated]) (simp add: chain_inv_def)
next
  case False
  with assms show ?thesis by (auto simp: fat_mmap_def Let_def split: if_splits)
qed

lemma funpow_two: "(f ^^ 2) x = f (f x)"
  by (simp add: numeral_2_eq_2)

subsection \<open>Clusters outside the requested region\<close>

text \<open>
  Claim C5 as stated fails when the cluster's byte range is its range in the file. For
  the region [0, 100) on clusters of 4096 bytes every pass asks for
  \<open>(100 - 0) >> 12 = 0\<close> pages and leaves \<open>off\<close> at 0, which passes the alignment
  assertion, so the loop never sees the end of the region: the second cluster of the
  file (cluster 3, file bytes [4096, 8192)) and the third, which lie wholly after the
  region, are passed to \<open>map_pages\<close>, with and without assertions.
\<close>

theorem unaligned_length_counterexample:
  "snd (snd (short_region_run True))
     = [Map_pages 2 0 0x40000000 0x01100000 0 0,
        Map_pages 3 0 0x40000000 0x01101000 0 0,
        Map_pages 4 0 0x40000000 0x01102000 0 0]
   \<and> snd (snd (short_region_run False))
     = [Map_pages 2 0 0x40000000 0x01100000 0 0,
        Map_pages 3 0 0x40000000 0x01101000 0 0,
        Map_pages 4 0 0x40000000 0x01102000 0 0]
   \<and> fat_read_fat_entry (contiguous_file_env True 0xC1100000 4096 3)
        (hdr (ramdisk_dev 4096 True)) (ftype (ramdisk_dev 4096 True)) 0
        (fat_get_first_cluster (contiguous_file_env True 0xC1100000 4096 3)
           (fh_e (um_h (file_mapping (ramdisk_dev 4096 True) False 0 100)))) = 3
   \<and> unat (um_off (file_mapping (ramdisk_dev 4096 True) False 0 100))
        + unat (um_len (file_mapping (ramdisk_dev 4096 True) False 0 100))
       \<le> 1 * unat (cluster_size (ramdisk_dev 4096 True))"
proof -
  have "snd (snd (short_region_run True))
     = [Map_pages 2 0 0x40000000 0x01100000 0 0,
        Map_pages 3 0 0x40000000 0x01101000 0 0,
        Map_pages 4 0 0x40000000 0x01102000 0 0]"
    by code_simp
  moreover have "snd (snd (short_region_run False))
     = [Map_pages 2 0 0x40000000 0x01100000 0 0,
        Map_pages 3 0 0x40000000 0x01101000 0 0,
        Map_pages 4 0 0x40000000 0x01102000 0 0]"
    by code_simp
  moreover have "fat_read_fat_entry (contiguous_file_env True 0xC1100000 4096 3)
        (hdr (ramdisk_dev 4096 True)) (ftype (ramdisk_dev 4096 True)) 0
        (fat_get_first_cluster (contiguous_file_env True 0xC1100000 4096 3)
           (fh_e (um_h (file_mapping (ramdisk_dev 4096 True) False 0 100)))) = 3"
    by (simp add: contiguous_file_env_def file_mapping_def)
  moreover have "unat (um_off (file_mapping (ramdisk_dev 4096 True) False 0 100))
        + unat (um_len (file_mapping (ramdisk_dev 4096 True) False 0 100))
       \<le> 1 * unat (cluster_size (ramdisk_dev 4096 True))"
    by (simp add: file_mapping_def ramdisk_dev_def)
  ultimately show ?thesis by blast
qed

text \<open>
  Claim C5 as amended. For a page-aligned request (offset and length whole pages, a
  supported cluster size, no 32-bit overflow) the entry at position \<open>k\<close> of the trace,
  when it is a call of \<open>map_pages\<close>, is for the \<open>k\<close>-th cluster of the file's chain, the
  running offset recorded with it is that cluster's offset \<open>k * cluster_size\<close> in the
  file, and the cluster's bytes [\<open>k * cluster_size\<close>, \<open>(k + 1) * cluster_size\<close>) neither
  end at or before the start of the region nor start at or after its end. So a cluster
  wholly before the region or wholly at or after its end is never passed to the Page
  Mapper. This holds for every Page Mapper, every chain and every fuel.
\<close>

theorem clusters_outside_aligned_region_never_mapped:
  assumes "page_aligned_request (fh_device_data (um_h um)) um"
    and "fat_mmap env fuel um pd flags = (r, pd', tr)"
    and "k < length tr"
    and "tr ! k = Map_pages c off va pa cnt mc"
  shows "c = ((fat_read_fat_entry env (hdr (fh_device_data (um_h um)))
                 (ftype (fh_device_data (um_h um))) 0) ^^ k)
               (fat_get_first_cluster env (fh_e (um_h um)))
       \<and> unat off = k * unat (cluster_size (fh_device_data (um_h um)))
       \<and> \<not> (Suc k * unat (cluster_size (fh_device_data (um_h um))) \<le> unat (um_off um))
       \<and> \<not> (unat (um_off um) + unat (um_len um)
              \<le> k * unat (cluster_size (fh_device_data (um_h um))))"
proof -
  let ?d = "fh_device_data (um_h um)"
  have chain: "c = ((fat_read_fat_entry env (hdr ?d) (ftype ?d) 0) ^^ k)
                     (fat_get_first_cluster env (fh_e (um_h um)))"
    using trace_in_chain_order [OF assms(2)] assms(3,4) by (rule in_chain_order_nth)
  have "unat off = (0 + k) * unat (cluster_size ?d)"
    using running_offset_is_cluster_offset [OF assms(1,2)] assms(3,4)
    by (rule offsets_from_nth)
  then have offk: "unat off = k * unat (cluster_size ?d)" by simp
  from assms(3,4) have "Map_pages c off va pa cnt mc \<in> set tr"
    by (metis nth_mem)
  with fat_mmap_sound [OF assms(2)]
  have "event_sound env ?d um (Map_pages c off va pa cnt mc)"
    by blast
  then have w: "off < um_off um + um_len um" "um_off um < off + cluster_size ?d"
    by simp_all
  from w(1) have "unat off < unat (um_off um) + unat (um_len um)"
    using unat_plus_le [of "um_off um" "um_len um"] by (simp add: word_less_nat_alt)
  moreover from w(2) have "unat (um_off um) < unat off + unat (cluster_size ?d)"
    using unat_plus_le [of off "cluster_size ?d"] by (simp add: word_less_nat_alt)
  ultimately show ?thesis using chain offk by simp
qed

text \<open>
  An instance: clusters of 4096 bytes, region [8192, 12288). The first two clusters are
  skipped and the third, cluster 4 with file bytes [8192, 12288), is mapped.
\<close>

theorem clusters_outside_aligned_region_never_mapped_witness:
  "snd (snd skipping_run) ! 2 = Map_pages 4 8192 0x40000000 0x01102000 1 1
   \<and> (4 :: 32 word) = 2 + 1 + 1
   \<and> unat (8192 :: 32 word) = 2 * 4096
   \<and> \<not> (Suc 2 * (4096 :: nat) \<le> 8192)
   \<and> \<not> ((8192 :: nat) + 4096 \<le> 2 * 4096)"
proof -
  let ?env = "contiguous_file_env True 0xC1100000 4096 3"
  let ?um = "file_mapping (ramdisk_dev 4096 True) False 8192 4096"
  let ?tr = "[Skip_cluster 2 0, Skip_cluster 3 4096,
              Map_pages 4 8192 0x40000000 0x01102000 1 1]"
  have tr: "snd (snd skipping_run) = ?tr"
    by code_simp
  then have run: "fat_mmap ?env 10 ?um (empty_space 100) 0
                   = (fst skipping_run, fst (snd skipping_run), ?tr)"
    unfolding skipping_run_def by (metis prod.collapse)
  have req: "page_aligned_request (fh_device_data (um_h ?um)) ?um"
    by (simp add: page_aligned_request_def cluster_size_supported_def IS_PAGE_ALIGNED_def
        PAGE_SIZE_def file_mapping_def ramdisk_dev_def)
  have len: "2 < length ?tr"
    by simp
  have nth: "?tr ! 2 = Map_pages 4 8192 0x40000000 0x01102000 1 1"
    by simp
  have "4 = ((fat_read_fat_entry ?env (hdr (fh_device_data (um_h ?um)))
                 (ftype (fh_device_data (um_h ?um))) 0) ^^ 2)
               (fat_get_first_cluster ?env (fh_e (um_h ?um)))
       \<and> unat (8192 :: 32 word) = 2 * unat (cluster_size (fh_device_data (um_h ?um)))
       \<and> \<not> (Suc 2 * unat (cluster_size (fh_device_data (um_h ?um))) \<le> unat (um_off ?um))
       \<and> \<not> (unat (um_off ?um) + unat (um_len ?um)
              \<le> 2 * unat (cluster_size (fh_device_data (um_h ?um))))"
    by (rule clusters_outside_aligned_region_never_mapped [OF req run len nth])
  then have "(4 :: 32 word) = 2 + 1 + 1
   \<and> unat (8192 :: 32 word) = 2 * 4096
   \<and> \<not> (Suc 2 * (4096 :: nat) \<le> 8192)
   \<and> \<not> ((8192 :: nat) + 4096 \<le> 2 * 4096)"
    by (simp add: file_mapping_def ramdisk_dev_def contiguous_file_env_def funpow_two)
  moreover have "snd (snd skipping_run) ! 2 = Map_pages 4 8192 0x40000000 0x01102000 1 1"
    unfolding tr by simp
  ultimately show ?thesis
    by blast
qed

subsection \<open>The physical address passed to the Page Mapper\<close>

text \<open>
  Claim C10. In every call of \<open>map_pages\<close> the physical address is that of the start of
  the current cluster's data. This includes the iterations that clip the start of the
  region (running offset below the region's start): there the code first sets \<open>off\<close> to
  \<open>off_begin\<close> and only then adds \<open>off_begin - off\<close> to the data pointer, so it adds
  zero and the pointer never moves into the cluster.
\<close>

theorem map_pages_gets_start_of_cluster_data:
  assumes "fat_mmap env fuel um pd flags = (r, pd', tr)"
    and "Map_pages c off va pa cnt mc \<in> set tr"
  shows "pa = KERNEL_VA_TO_PA env
                (fat_get_pointer_to_cluster_data env (hdr (fh_device_data (um_h um))) c)"
proof -
  from fat_mmap_sound [OF assms(1)] assms(2)
  have "event_sound env (fh_device_data (um_h um)) um (Map_pages c off va pa cnt mc)"
    by blast
  then show ?thesis by simp
qed

text \<open>
  An instance with clipping: clusters of 8192 bytes, region [4096, 8192). The region
  starts in the middle of the first cluster, and the page mapped for it is the first
  page of that cluster, at physical address \<open>0x01100000\<close>.
\<close>

theorem map_pages_gets_start_of_cluster_data_witness:
  "snd (snd clipped_run) = [Map_pages 2 0 0x40000000 0x01100000 1 1]
   \<and> (0x01100000 :: 32 word) = 0xC1100000 + (2 - 2) * 8192 - 0xC0000000"
proof -
  let ?env = "contiguous_file_env True 0xC1100000 8192 3"
  let ?um = "file_mapping (ramdisk_dev 8192 True) False 4096 4096"
  let ?tr = "[Map_pages 2 0 0x40000000 0x01100000 1 1]"
  have tr: "snd (snd clipped_run) = ?tr"
    by code_simp
  then have run: "fat_mmap ?env 10 ?um (empty_space 100) 0
                   = (fst clipped_run, fst (snd clipped_run), ?tr)"
    unfolding clipped_run_def by (metis prod.collapse)
  have mem: "Map_pages 2 0 0x40000000 0x01100000 1 1 \<in> set ?tr"
    by simp
  have "(0x01100000 :: 32 word) = KERNEL_VA_TO_PA ?env
          (fat_get_pointer_to_cluster_data ?env (hdr (fh_device_data (um_h ?um))) 2)"
    by (rule map_pages_gets_start_of_cluster_data [OF run mem])
  then have "(0x01100000 :: 32 word) = 0xC1100000 + (2 - 2) * 8192 - 0xC0000000"
    by (simp add: contiguous_file_env_def)
  with tr show ?thesis
    by blast
qed

subsection \<open>A shortfall of the Page Mapper\<close>

lemma map_cluster_complete:
  assumes "\<forall>ev\<in>set (st_trace s). call_complete ev"
  shows "case fat_mmap_map_cluster env d um s of
           Exit r pd tr \<Rightarrow>
             r \<noteq> Mmap_returned (Ret_minus ENOMEM) \<longrightarrow> (\<forall>ev\<in>set tr. call_complete ev)
         | Continue s' \<Rightarrow> \<forall>ev\<in>set (st_trace s'). call_complete ev"
  using assms unfolding map_cluster_alt
  by (auto simp: Let_def)

lemma body_complete:
  assumes "\<forall>ev\<in>set (st_trace s). call_complete ev"
  shows "case fat_mmap_body env d um s of
           Exit r pd tr \<Rightarrow>
             r \<noteq> Mmap_returned (Ret_minus ENOMEM) \<longrightarrow> (\<forall>ev\<in>set tr. call_complete ev)
         | Continue s' \<Rightarrow> \<forall>ev\<in>set (st_trace s'). call_complete ev"
  using assms map_cluster_complete [OF assms, of env d um]
  by (auto simp: fat_mmap_body_def Let_def split: step.splits)

lemma loop_complete:
  assumes "\<forall>ev\<in>set (st_trace s). call_complete ev"
    and "fat_mmap_loop env d um fuel s = (r, pd, tr)"
    and "r \<noteq> Mmap_returned (Ret_minus ENOMEM)"
  shows "\<forall>ev\<in>set tr. call_complete ev"
  using assms
proof (induction fuel arbitrary: s)
  case 0
  then show ?case by simp
next
  case (Suc n)
  from body_complete [OF Suc.prems(1), of env d um] Suc.prems(2,3) Suc.IH show ?case
    by (auto split: step.splits if_splits)
qed

text \<open>
  A call of \<open>map_pages\<close> that falls short always makes \<open>fat_mmap\<close> return \<open>-ENOMEM\<close>.
\<close>

lemma short_call_returns_enomem:
  assumes "fat_mmap env fuel um pd flags = (r, pd', tr)"
    and "Map_pages c off va pa cnt mc \<in> set tr"
    and "mc \<noteq> cnt"
  shows "r = Mmap_returned (Ret_minus ENOMEM)"
proof (rule ccontr)
  assume other: "r \<noteq> Mmap_returned (Ret_minus ENOMEM)"
  have "\<forall>ev\<in>set tr. call_complete ev"
  proof (cases "mmap_support (fh_device_data (um_h um)) \<and> \<not> directory (fh_e (um_h um))
                \<and> flags AND VFS_MM_DONT_MMAP env = 0")
    case True
    with assms(1) have "fat_mmap_loop env (fh_device_data (um_h um)) um fuel
            \<lparr>st_clu = fat_get_first_cluster env (fh_e (um_h um)), st_off = 0,
             st_vaddr = um_vaddr um, st_tot_mapped_cnt = 0, st_pdir = pd, st_trace = []\<rparr>
          = (r, pd', tr)"
      by (simp add: fat_mmap_def Let_def)
    from loop_complete [OF _ this other] show ?thesis by simp
  next
    case False
    with assms(1) show ?thesis by (auto simp: fat_mmap_def Let_def split: if_splits)
  qed
  with assms(2) have "call_complete (Map_pages c off va pa cnt mc)" by blast
  with assms(3) show False by simp
qed

lemma mapped_total_append: "mapped_total (xs @ ys) = mapped_total xs + mapped_total ys"
  by (induction xs rule: mapped_total.induct) simp_all

lemma map_cluster_rollback:
  assumes "rollback_inv um s"
  shows "case fat_mmap_map_cluster env d um s of
           Exit r pd tr \<Rightarrow> r = Mmap_returned (Ret_minus ENOMEM) \<longrightarrow> short_call_exit um tr
         | Continue s' \<Rightarrow> rollback_inv um s'"
  using assms unfolding map_cluster_alt
  by (auto simp: Let_def rollback_inv_def short_call_exit_def mapped_total_append push_bit_add)

lemma body_rollback:
  assumes "rollback_inv um s"
  shows "case fat_mmap_body env d um s of
           Exit r pd tr \<Rightarrow> r = Mmap_returned (Ret_minus ENOMEM) \<longrightarrow> short_call_exit um tr
         | Continue s' \<Rightarrow> rollback_inv um s'"
  using assms map_cluster_rollback [OF assms, of env d]
  by (auto simp: fat_mmap_body_def Let_def rollback_inv_def mapped_total_append
      split: step.splits)

lemma loop_rollback:
  assumes "rollback_inv um s"
    and "fat_mmap_loop env d um fuel s = (Mmap_returned (Ret_minus ENOMEM), pd, tr)"
  shows "short_call_exit um tr"
  using assms
proof (induction fuel arbitrary: s)
  case 0
  then show ?case by simp
next
  case (Suc n)
  from body_rollback [OF Suc.prems(1), of env d] Suc.prems(2) Suc.IH show ?case
    by (auto split: step.splits if_splits)
qed

text \<open>
  Whenever \<open>fat_mmap\<close> returns \<open>-ENOMEM\<close>, its last two calls are a short \<open>map_pages\<close>
  and an \<open>unmap_pages_permissive\<close> of exactly the pages that the earlier calls mapped,
  from the start of the region; the short call was made just behind those pages.
\<close>

lemma enomem_unmaps_earlier_calls_only:
  assumes "fat_mmap env fuel um pd flags = (Mmap_returned (Ret_minus ENOMEM), pd', tr)"
  shows "short_call_exit um tr"
proof (cases "mmap_support (fh_device_data (um_h um)) \<and> \<not> directory (fh_e (um_h um))
              \<and> flags AND VFS_MM_DONT_MMAP env = 0")
  case True
  with assms have "fat_mmap_loop env (fh_device_data (um_h um)) um fuel
          \<lparr>st_clu = fat_get_first_cluster env (fh_e (um_h um)), st_off = 0,
           st_vaddr = um_vaddr um, st_tot_mapped_cnt = 0, st_pdir = pd, st_trace = []\<rparr>
        = (Mmap_returned (Ret_minus ENOMEM), pd', tr)"
    by (simp add: fat_mmap_def Let_def)
  then show ?thesis
    by (rule loop_rollback [rotated]) (simp add: rollback_inv_def)
next
  case False
  with assms show ?thesis by (auto simp: fat_mmap_def Let_def split: if_splits)
qed

text \<open>
  Claim C1, evaluated where it fails. Clusters of 8192 bytes, a file of three clusters,
  region [0, 24576), and an address space in which three more pages can be mapped. The
  first call of \<open>map_pages\<close> maps two pages; the second is asked for two and maps one.
  \<open>fat_mmap\<close> then unmaps \<open>tot_mapped_cnt = 2\<close> pages from the start of the region and
  returns \<open>-ENOMEM\<close>. The count does not include the page the short call mapped, which
  was not mapped before the call and is still mapped at \<open>0x40002000\<close> after it.
\<close>

theorem short_map_pages_call_is_not_rolled_back:
  "fst shortfall_run = Mmap_returned (Ret_minus ENOMEM)
   \<and> snd (snd shortfall_run)
       = [Map_pages 2 0 0x40000000 0x01100000 2 2,
          Map_pages 3 8192 0x40002000 0x01102000 2 1,
          Unmap_pages_permissive 0x40000000 2]
   \<and> as_map (empty_space 3) 0x40002000 = None
   \<and> as_map (fst (snd shortfall_run)) 0x40000000 = None
   \<and> as_map (fst (snd shortfall_run)) 0x40001000 = None
   \<and> as_map (fst (snd shortfall_run)) 0x40002000 = Some 0x01102000"
proof -
  have "fst shortfall_run = Mmap_returned (Ret_minus ENOMEM)"
    by code_simp
  moreover have "snd (snd shortfall_run)
       = [Map_pages 2 0 0x40000000 0x01100000 2 2,
          Map_pages 3 8192 0x40002000 0x01102000 2 1,
          Unmap_pages_permissive 0x40000000 2]"
    by code_simp
  moreover have "as_map (empty_space 3) 0x40002000 = None"
    by code_simp
  moreover have "as_map (fst (snd shortfall_run)) 0x40000000 = None"
    by code_simp
  moreover have "as_map (fst (snd shortfall_run)) 0x40001000 = None"
    by code_simp
  moreover have "as_map (fst (snd shortfall_run)) 0x40002000 = Some 0x01102000"
    by code_simp
  ultimately show ?thesis by blast
qed

subsection \<open>The alignment assertion\<close>

text \<open>
  Claim C7, evaluated where it fails. Clusters of 8192 bytes and the page-aligned region
  [0, 4096): the first iteration maps one page and advances \<open>off\<close> to 4096, which is not
  a multiple of the cluster size, so \<open>ASSERT((off % d->cluster_size) == 0)\<close> fails. With
  the assertions compiled out the same call maps the page and returns \<open>0\<close>.
\<close>

theorem alignment_assert_fails_when_region_ends_inside_cluster:
  "fst (mid_cluster_end_run True) = Mmap_assert_failed
   \<and> snd (snd (mid_cluster_end_run True)) = [Map_pages 2 0 0x40000000 0x01100000 1 1]
   \<and> fst (mid_cluster_end_run False) = Mmap_returned Ret_0
   \<and> snd (snd (mid_cluster_end_run False)) = [Map_pages 2 0 0x40000000 0x01100000 1 1]"
proof -
  have "fst (mid_cluster_end_run True) = Mmap_assert_failed"
    by code_simp
  moreover have "snd (snd (mid_cluster_end_run True))
                   = [Map_pages 2 0 0x40000000 0x01100000 1 1]"
    by code_simp
  moreover have "fst (mid_cluster_end_run False) = Mmap_returned Ret_0"
    by code_simp
  moreover have "snd (snd (mid_cluster_end_run False))
                   = [Map_pages 2 0 0x40000000 0x01100000 1 1]"
    by code_simp
  ultimately show ?thesis by blast
qed

subsection \<open>The scenario of the specification\<close>

text \<open>
  Claim C4 as stated fails. For the request [2000, 10000) the first iteration clips
  \<open>off\<close> to 2000 and asks for \<open>(4096 - 2000) >> 12 = 0\<close> pages, which leaves \<open>off\<close> at
  2000: with assertions the alignment assertion fails there and nothing is mapped;
  without them the loop goes on and maps one page only, the second cluster's, at the
  requested address. In neither build are the three pages of [0, 12288) mapped.
\<close>

theorem unaligned_scenario_counterexample:
  "\<not> (as_map (fst (snd (unaligned_scenario_run True))) 0x40000000 = Some 0x01100000
      \<and> as_map (fst (snd (unaligned_scenario_run True))) 0x40001000 = Some 0x01101000
      \<and> as_map (fst (snd (unaligned_scenario_run True))) 0x40002000 = Some 0x01102000)
   \<and> \<not> (as_map (fst (snd (unaligned_scenario_run False))) 0x40000000 = Some 0x01100000
      \<and> as_map (fst (snd (unaligned_scenario_run False))) 0x40001000 = Some 0x01101000
      \<and> as_map (fst (snd (unaligned_scenario_run False))) 0x40002000 = Some 0x01102000)
   \<and> fst (unaligned_scenario_run True) = Mmap_assert_failed
   \<and> snd (snd (unaligned_scenario_run True)) = [Map_pages 2 0 0x40000000 0x01100000 0 0]
   \<and> fst (unaligned_scenario_run False) = Mmap_returned Ret_0
   \<and> snd (snd (unaligned_scenario_run False))
       = [Map_pages 2 0 0x40000000 0x01100000 0 0,
          Map_pages 3 2000 0x40000000 0x01101000 1 1,
          Map_pages 4 6096 0x40001000 0x01102000 0 0]"
proof -
  have "as_map (fst (snd (unaligned_scenario_run True))) 0x40000000 = None"
    by code_simp
  moreover have "as_map (fst (snd (unaligned_scenario_run False))) 0x40001000 = None"
    by code_simp
  moreover have "fst (unaligned_scenario_run True) = Mmap_assert_failed"
    by code_simp
  moreover have "snd (snd (unaligned_scenario_run True))
                   = [Map_pages 2 0 0x40000000 0x01100000 0 0]"
    by code_simp
  moreover have "fst (unaligned_scenario_run False) = Mmap_returned Ret_0"
    by code_simp
  moreover have "snd (snd (unaligned_scenario_run False))
       = [Map_pages 2 0 0x40000000 0x01100000 0 0,
          Map_pages 3 2000 0x40000000 0x01101000 1 1,
          Map_pages 4 6096 0x40001000 0x01102000 0 0]"
    by code_simp
  ultimately show ?thesis by simp
qed

text \<open>
  Claim C4 as amended. For the page-aligned request [0, 12288), which covers the pages
  that [2000, 10000) touches, \<open>fat_mmap\<close> returns \<open>0\<close> after three calls of \<open>map_pages\<close>,
  one page per cluster, at the contiguous virtual addresses \<open>0x40000000\<close>,
  \<open>0x40001000\<close>, \<open>0x40002000\<close> starting at the requested one, for the file bytes
  [0, 4096), [4096, 8192), [8192, 12288); no cluster is skipped. This holds with and
  without assertions.
\<close>

theorem aligned_scenario_maps_three_pages:
  "fst (aligned_scenario_run asserts) = Mmap_returned Ret_0
   \<and> snd (snd (aligned_scenario_run asserts))
       = [Map_pages 2 0 0x40000000 0x01100000 1 1,
          Map_pages 3 4096 0x40001000 0x01101000 1 1,
          Map_pages 4 8192 0x40002000 0x01102000 1 1]
   \<and> as_map (fst (snd (aligned_scenario_run asserts))) 0x40000000 = Some 0x01100000
   \<and> as_map (fst (snd (aligned_scenario_run asserts))) 0x40001000 = Some 0x01101000
   \<and> as_map (fst (snd (aligned_scenario_run asserts))) 0x40002000 = Some 0x01102000
   \<and> filter is_Skip_cluster (snd (snd (aligned_scenario_run asserts))) = []"
proof -
  have t1: "fst (aligned_scenario_run True) = Mmap_returned Ret_0"
    by code_simp
  have t2: "snd (snd (aligned_scenario_run True))
       = [Map_pages 2 0 0x40000000 0x01100000 1 1,
          Map_pages 3 4096 0x40001000 0x01101000 1 1,
          Map_pages 4 8192 0x40002000 0x01102000 1 1]"
    by code_simp
  have t3: "as_map (fst (snd (aligned_scenario_run True))) 0x40000000 = Some 0x01100000"
    by code_simp
  have t4: "as_map (fst (snd (aligned_scenario_run True))) 0x40001000 = Some 0x01101000"
    by code_simp
  have t5: "as_map (fst (snd (aligned_scenario_run True))) 0x40002000 = Some 0x01102000"
    by code_simp
  have f1: "fst (aligned_scenario_run False) = Mmap_returned Ret_0"
    by code_simp
  have f2: "snd (snd (aligned_scenario_run False))
       = [Map_pages 2 0 0x40000000 0x01100000 1 1,
          Map_pages 3 4096 0x40001000 0x01101000 1 1,
          Map_pages 4 8192 0x40002000 0x01102000 1 1]"
    by code_simp
  have f3: "as_map (fst (snd (aligned_scenario_run False))) 0x40000000 = Some 0x01100000"
    by code_simp
  have f4: "as_map (fst (snd (aligned_scenario_run False))) 0x40001000 = Some 0x01101000"
    by code_simp
  have f5: "as_map (fst (snd (aligned_scenario_run False))) 0x40002000 = Some 0x01102000"
    by code_simp
  show ?thesis
  proof (cases asserts)
    case True
    with t1 t2 t3 t4 t5 show ?thesis by simp
  next
    case False
    with f1 f2 f3 f4 f5 show ?thesis by simp
  qed
qed

end
